theory Spec2Isabelle
  imports Complex_Main
begin

section \<open>Python strings\<close>

text \<open>
  A Python \<open>str\<close> is a sequence of Unicode code points, and \<open>len\<close> counts code points.
  A text is therefore a list of code points; an ASCII literal of the source is written
  \<open>ascii ''...''\<close>.
\<close>

type_synonym pystr = "nat list"

definition ascii :: "string \<Rightarrow> pystr" where
  "ascii s = map of_char s"

text \<open>
  \<open>str.isspace\<close> for one code point: the code points Python treats as whitespace in
  \<open>str.split()\<close> and \<open>str.strip()\<close> (U+0009..U+000D, U+001C..U+0020, U+0085, U+00A0,
  U+1680, U+2000..U+200A, U+2028, U+2029, U+202F, U+205F, U+3000).
\<close>

definition isspace :: "nat \<Rightarrow> bool" where
  "isspace c = ((9 \<le> c \<and> c \<le> 13) \<or> (28 \<le> c \<and> c \<le> 32) \<or> c = 133 \<or> c = 160
     \<or> c = 5760 \<or> (8192 \<le> c \<and> c \<le> 8202) \<or> c = 8232 \<or> c = 8233 \<or> c = 8239
     \<or> c = 8287 \<or> c = 12288)"

text \<open>
  \<open>str.lower()\<close>, code point by code point: the upper-case letters of ASCII and Latin-1
  (U+0041..U+005A, U+00C0..U+00DE without U+00D7) move up by 32. Code points from U+0100 on
  are left as they are: the case table of the Python runtime beyond Latin-1 is not part of
  this development.
\<close>

definition lower_cp :: "nat \<Rightarrow> nat" where
  "lower_cp c = (if (65 \<le> c \<and> c \<le> 90) \<or> (192 \<le> c \<and> c \<le> 222 \<and> c \<noteq> 215)
                 then c + 32 else c)"

definition lower :: "pystr \<Rightarrow> pystr" where
  "lower s = map lower_cp s"

text \<open>
  \<open>s.split()\<close>: the maximal runs of non-whitespace code points, in order; \<open>cur\<close> is the
  word being read.
\<close>

fun split_acc :: "pystr \<Rightarrow> pystr \<Rightarrow> pystr list" where
  "split_acc cur [] = (if cur = [] then [] else [cur])"
| "split_acc cur (c # cs) =
     (if isspace c then (if cur = [] then split_acc [] cs else cur # split_acc [] cs)
      else split_acc (cur @ [c]) cs)"

definition str_split :: "pystr \<Rightarrow> pystr list" where
  "str_split s = split_acc [] s"

text \<open>
  \<open>s.split(d)\<close> for a separator \<open>d\<close> of one code point: one piece more than there are
  separators, empty pieces kept.
\<close>

fun split_on_acc :: "nat \<Rightarrow> pystr \<Rightarrow> pystr \<Rightarrow> pystr list" where
  "split_on_acc d cur [] = [cur]"
| "split_on_acc d cur (c # cs) =
     (if c = d then cur # split_on_acc d [] cs else split_on_acc d (cur @ [c]) cs)"

definition split_on :: "nat \<Rightarrow> pystr \<Rightarrow> pystr list" where
  "split_on d s = split_on_acc d [] s"

text \<open>\<open>s.strip()\<close>: leading and trailing whitespace removed.\<close>

definition strip :: "pystr \<Rightarrow> pystr" where
  "strip s = rev (dropWhile isspace (rev (dropWhile isspace s)))"

text \<open>\<open>kw in s\<close> for strings: \<open>kw\<close> occurs in \<open>s\<close> as a contiguous block.\<close>

fun startswith :: "pystr \<Rightarrow> pystr \<Rightarrow> bool" where
  "startswith s [] = True"
| "startswith [] (k # ks) = False"
| "startswith (c # cs) (k # ks) = (c = k \<and> startswith cs ks)"

fun contains :: "pystr \<Rightarrow> pystr \<Rightarrow> bool" where
  "contains [] kw = (kw = [])"
| "contains (c # cs) kw = (startswith (c # cs) kw \<or> contains cs kw)"

definition endswith :: "pystr \<Rightarrow> pystr \<Rightarrow> bool" where
  "endswith s kw = startswith (rev s) (rev kw)"

section \<open>Sentiment\<close>

text \<open>
  \<open>LLMService._calculate_sentiment\<close>: the two word lists of the source, the lower-cased
  text split at whitespace, and the counts of the tokens that are members of each list.
\<close>

definition positive_words :: "pystr list" where
  "positive_words = map ascii
     [''good'', ''great'', ''excellent'', ''amazing'', ''wonderful'', ''fantastic'']"

definition negative_words :: "pystr list" where
  "negative_words = map ascii
     [''bad'', ''terrible'', ''awful'', ''horrible'', ''poor'', ''disappointing'']"

definition positive_count :: "pystr \<Rightarrow> nat" where
  "positive_count text = length (filter (\<lambda>word. word \<in> set positive_words) (str_split (lower text)))"

definition negative_count :: "pystr \<Rightarrow> nat" where
  "negative_count text = length (filter (\<lambda>word. word \<in> set negative_words) (str_split (lower text)))"

definition calculate_sentiment :: "pystr \<Rightarrow> real" where
  "calculate_sentiment text =
     (if positive_count text + negative_count text = 0 then 0
      else (real (positive_count text) - real (negative_count text))
           / real (positive_count text + negative_count text))"

section \<open>Readability\<close>

text \<open>
  \<open>re.split(r'[.!?]+', text)\<close>: the pieces of the text between the maximal runs of
  \<open>.\<close>, \<open>!\<close> and \<open>?\<close>; \<open>run\<close> tells that the code point before was one of them. The
  result is never empty.
\<close>

definition is_terminator :: "nat \<Rightarrow> bool" where
  "is_terminator c = (c = 46 \<or> c = 33 \<or> c = 63)"

fun re_split_acc :: "pystr \<Rightarrow> bool \<Rightarrow> pystr \<Rightarrow> pystr list" where
  "re_split_acc cur run [] = [cur]"
| "re_split_acc cur run (c # cs) =
     (if is_terminator c
      then (if run then re_split_acc cur True cs else cur # re_split_acc [] True cs)
      else re_split_acc (cur @ [c]) False cs)"

definition re_split :: "pystr \<Rightarrow> pystr list" where
  "re_split s = re_split_acc [] False s"

text \<open>
  \<open>LLMService._count_syllables\<close>: the loop over the lower-cased word carries
  \<open>syllable_count\<close> and \<open>previous_was_vowel\<close>.
\<close>

definition is_vowel :: "nat \<Rightarrow> bool" where
  "is_vowel c = (c \<in> set (ascii ''aeiouy''))"

fun syllable_loop :: "pystr \<Rightarrow> int \<Rightarrow> bool \<Rightarrow> int" where
  "syllable_loop [] syllable_count previous_was_vowel = syllable_count"
| "syllable_loop (c # cs) syllable_count previous_was_vowel =
     syllable_loop cs
       (if is_vowel c \<and> \<not> previous_was_vowel then syllable_count + 1 else syllable_count)
       (is_vowel c)"

definition count_syllables :: "pystr \<Rightarrow> int" where
  "count_syllables word =
     (let w = lower word;
          syllable_count = syllable_loop w 0 False;
          syllable_count' = (if endswith w (ascii ''e'') then syllable_count - 1
                             else syllable_count)
      in max 1 syllable_count')"

definition flesch :: "nat \<Rightarrow> nat \<Rightarrow> int \<Rightarrow> real" where
  "flesch sentences words syllables =
     206.835 - 1.015 * (real words / real sentences)
             - 84.6 * (real_of_int syllables / real words)"

definition calculate_readability :: "pystr \<Rightarrow> real" where
  "calculate_readability text =
     (let sentences = length (re_split text);
          words = length (str_split text);
          syllables = sum_list (map count_syllables (str_split text))
      in if sentences = 0 \<or> words = 0 then 0
         else max 0 (min 100 (flesch sentences words syllables)) / 100)"

section \<open>Coherence\<close>

text \<open>
  \<open>LLMService._calculate_coherence\<close>: the text is split at \<open>.\<close> (code point 46); the
  pieces that are not blank give their word counts.
\<close>

definition segment_lengths :: "pystr \<Rightarrow> nat list" where
  "segment_lengths text =
     map (\<lambda>sentence. length (str_split sentence))
         (filter (\<lambda>sentence. strip sentence \<noteq> []) (split_on 46 text))"

definition variance_of :: "nat list \<Rightarrow> real" where
  "variance_of lengths =
     (let avg_length = real (sum_list lengths) / real (length lengths)
      in sum_list (map (\<lambda>l. (real l - avg_length)\<^sup>2) lengths) / real (length lengths))"

definition calculate_coherence :: "pystr \<Rightarrow> real" where
  "calculate_coherence text =
     (if length (split_on 46 text) < 2 then 1
      else let lengths = segment_lengths text
           in if lengths = [] then 0
              else let avg_length = real (sum_list lengths) / real (length lengths);
                       variance = variance_of lengths
                   in 1 / (1 + variance / max avg_length 1))"

section \<open>Cost and the metrics record\<close>

datatype model_provider = OPENAI | ANTHROPIC | HUGGINGFACE

record model_config =
  provider :: model_provider
  model_name :: pystr
  temperature :: real
  max_tokens :: "int option"
  top_p :: "real option"
  frequency_penalty :: "real option"
  presence_penalty :: "real option"

record metrics_data =
  response_length :: nat
  token_count :: int
  latency_ms :: real
  cost_estimate :: real
  sentiment_score :: "real option"
  readability_score :: "real option"
  coherence_score :: "real option"

definition cost_per_1k_tokens :: "(pystr \<times> real) list" where
  "cost_per_1k_tokens =
     [(ascii ''gpt-4'', 0.03), (ascii ''gpt-3.5-turbo'', 0.002),
      (ascii ''claude-3-opus'', 0.015), (ascii ''claude-3-sonnet'', 0.003)]"

definition rate_of :: "pystr \<Rightarrow> real" where
  "rate_of name = (case map_of cost_per_1k_tokens name of None \<Rightarrow> 0.001 | Some r \<Rightarrow> r)"

definition estimate_cost :: "int \<Rightarrow> model_config \<Rightarrow> real" where
  "estimate_cost tokens cfg = (real_of_int tokens / 1000) * rate_of (model_name cfg)"

text \<open>
  \<open>LLMService._calculate_metrics\<close>. None of the computations of the \<open>try\<close> block raises
  on a string (every division is guarded or has a divisor of at least 1), so the
  \<open>except\<close> branch is not reached and the function is its \<open>try\<close> block.
\<close>

definition calculate_metrics :: "pystr \<Rightarrow> real \<Rightarrow> model_config \<Rightarrow> metrics_data" where
  "calculate_metrics resp latency cfg =
     \<lparr>response_length = length resp,
      token_count = int (length (str_split resp)),
      latency_ms = latency,
      cost_estimate = estimate_cost (int (length (str_split resp))) cfg,
      sentiment_score = Some (calculate_sentiment resp),
      readability_score = Some (calculate_readability resp),
      coherence_score = Some (calculate_coherence resp)\<rparr>"

section \<open>Dispatch, error classification and fallback\<close>

text \<open>
  The \<open>except\<close> clause of \<open>LLMService.generate_response\<close> looks at the lower-cased message
  of the exception: first for the quota keywords, then for the authentication keywords.
\<close>

definition quota_keywords :: "pystr list" where
  "quota_keywords = map ascii
     [''quota'', ''rate limit'', ''429'', ''insufficient_quota'', ''exceeded'']"

definition auth_keywords :: "pystr list" where
  "auth_keywords = map ascii [''authentication'', ''api key'', ''unauthorized'', ''401'']"

datatype error_class = Quota | Auth | Other

definition classify :: "pystr \<Rightarrow> error_class" where
  "classify message =
     (let error_message = lower message
      in if list_ex (\<lambda>keyword. contains error_message keyword) quota_keywords then Quota
         else if list_ex (\<lambda>keyword. contains error_message keyword) auth_keywords then Auth
         else Other)"

text \<open>
  The service holds the demo flag and its clients; a client is either there or \<open>None\<close>.
  What lies outside the program is given to each call: the outcome of the provider's API
  (the text and token usage, or the message of the exception it raises), the clock, and the
  random draws of the demo response.
\<close>

record llm_service =
  demo_mode :: bool
  openai_client :: bool
  anthropic_client :: bool

record api_reply =
  reply_text :: pystr
  reply_usage :: "(pystr \<times> real) list"

record environment =
  api :: "pystr + api_reply"
  elapsed_ms :: real
  choice :: nat
  cost_draw :: real
  sentiment_draw :: real
  readability_draw :: real

record model_info =
  info_provider :: pystr
  info_model :: pystr
  info_demo_mode :: bool

record gen_result =
  response :: pystr
  metrics :: metrics_data
  token_usage :: "(pystr \<times> real) list"
  model_info :: "model_info option"
  result_config :: "model_config option"

definition provider_value :: "model_provider \<Rightarrow> pystr" where
  "provider_value p = (case p of OPENAI \<Rightarrow> ascii ''openai'' | ANTHROPIC \<Rightarrow> ascii ''anthropic''
                       | HUGGINGFACE \<Rightarrow> ascii ''huggingface'')"

text \<open>
  The provider calls. The OpenAI and Anthropic calls raise \<open>ValueError\<close> when their client
  is missing; every exception of the API is raised again as it is.
\<close>

definition generate_openai_response :: "llm_service \<Rightarrow> environment \<Rightarrow> pystr + api_reply" where
  "generate_openai_response svc env =
     (if \<not> openai_client svc then Inl (ascii ''OpenAI client not initialized'') else api env)"

definition generate_anthropic_response :: "llm_service \<Rightarrow> environment \<Rightarrow> pystr + api_reply" where
  "generate_anthropic_response svc env =
     (if \<not> anthropic_client svc then Inl (ascii ''Anthropic client not initialized'')
      else api env)"

definition generate_huggingface_response :: "llm_service \<Rightarrow> environment \<Rightarrow> pystr + api_reply" where
  "generate_huggingface_response svc env = api env"

definition call_provider :: "llm_service \<Rightarrow> environment \<Rightarrow> model_config \<Rightarrow> pystr + api_reply" where
  "call_provider svc env cfg =
     (case provider cfg of
        OPENAI \<Rightarrow> generate_openai_response svc env
      | ANTHROPIC \<Rightarrow> generate_anthropic_response svc env
      | HUGGINGFACE \<Rightarrow> generate_huggingface_response svc env)"

text \<open>
  The canned texts of \<open>_generate_demo_response\<close>. Their first code points are the emoji
  U+1F527, U+1F4F1 and U+26A1.
\<close>

definition demo_responses :: "model_provider \<Rightarrow> pystr list" where
  "demo_responses p = (case p of
     OPENAI \<Rightarrow>
       [128295 # ascii '' **Demo Mode Response** - This simulates OpenAI's GPT response. In production, this would be generated by the actual OpenAI API with full language model capabilities.'',
        128241 # ascii '' **Mock Response** - This demonstrates how OpenAI's models would respond to your prompt. The real implementation connects to OpenAI's API for authentic AI-generated content.'',
        9889 # ascii '' **Playground Demo** - This sample response shows the expected output format from OpenAI's language models. Actual deployment uses live API connections.'']
   | ANTHROPIC \<Rightarrow>
       [128295 # ascii '' **Demo Mode Response** - This simulates Claude's response style. In production, Anthropic's AI assistant would provide thoughtful, nuanced responses with strong reasoning capabilities.'',
        128241 # ascii '' **Mock Response** - This demonstrates Claude's approach to helpful, harmless, and honest responses. Real deployment connects to Anthropic's API.'',
        9889 # ascii '' **Playground Demo** - This sample shows how Claude typically structures detailed, ethical responses. Actual implementation uses live Anthropic API.'']
   | HUGGINGFACE \<Rightarrow>
       [128295 # ascii '' **Demo Mode Response** - This simulates output from Hugging Face models. Production deployment would use actual open-source transformer models from the Hub.'',
        128241 # ascii '' **Mock Response** - This demonstrates the variety of responses possible with Hugging Face's ecosystem of community models.'',
        9889 # ascii '' **Playground Demo** - This sample shows typical output from open-source language models. Real implementation connects to Hugging Face inference.''])"

text \<open>
  The text put before and after the canned text in fallback mode (it starts with U+26A0
  U+FE0F), and the note on the prompt (it starts with two newlines and U+1F4A1).
\<close>

definition fallback_banner :: pystr where
  "fallback_banner =
     [9888, 65039] @ ascii '' **API Quota/Auth Error - Fallback Mode Active**'' @ [10, 10]"

definition fallback_note :: pystr where
  "fallback_note = [10, 10] @ ascii ''*Note: This demo response was triggered due to API quota limits or authentication issues. Please check your API keys and quota status.*''"

definition prompt_note :: "pystr \<Rightarrow> pystr" where
  "prompt_note prompt =
     [10, 10, 128161] @ ascii '' *Your prompt: '' @ [39] @ take 100 prompt
       @ (if length prompt > 100 then ascii ''...'' else []) @ [39]
       @ ascii '' - This showcases the interactive nature of the prompt engineering playground.*''"

text \<open>
  \<open>random.choice\<close> picks one of the three texts: the draw \<open>choice env\<close> is taken modulo their
  number. \<open>int(word_count * 1.3)\<close> rounds towards zero.
\<close>

definition demo_text :: "llm_service \<Rightarrow> environment \<Rightarrow> pystr \<Rightarrow> model_config \<Rightarrow> pystr" where
  "demo_text svc env prompt cfg =
     (let is_fallback_mode = \<not> demo_mode svc;
          responses = demo_responses (provider cfg);
          response_text = responses ! (choice env mod length responses);
          response_text = (if is_fallback_mode
                           then fallback_banner @ response_text @ fallback_note
                           else response_text)
      in if contains (lower prompt) (ascii ''question'') \<or> contains prompt (ascii ''?'')
         then response_text @ prompt_note prompt
         else response_text)"

definition generate_demo_response ::
  "llm_service \<Rightarrow> environment \<Rightarrow> pystr \<Rightarrow> model_config \<Rightarrow> gen_result" where
  "generate_demo_response svc env prompt cfg =
     (let response_text = demo_text svc env prompt cfg;
          word_count = length (str_split response_text);
          token_count = \<lfloor>real word_count * 1.3\<rfloor>;
          prompt_tokens = real (length (str_split prompt)) * 1.3
      in \<lparr>response = response_text,
          metrics = \<lparr>response_length = length response_text,
                     token_count = token_count,
                     latency_ms = elapsed_ms env,
                     cost_estimate = cost_draw env,
                     sentiment_score = Some (sentiment_draw env),
                     readability_score = Some (readability_draw env),
                     coherence_score = None\<rparr>,
          token_usage = [(ascii ''prompt_tokens'', prompt_tokens),
                         (ascii ''completion_tokens'', real_of_int token_count),
                         (ascii ''total_tokens'', prompt_tokens + real_of_int token_count)],
          model_info = Some \<lparr>info_provider = provider_value (provider cfg),
                              info_model = model_name cfg,
                              info_demo_mode = True\<rparr>,
          result_config = None\<rparr>)"

text \<open>
  \<open>LLMService.generate_response\<close>: \<open>Inl\<close> carries the message of the exception that
  leaves the function.
\<close>

definition generate_response ::
  "llm_service \<Rightarrow> environment \<Rightarrow> pystr \<Rightarrow> model_config \<Rightarrow> pystr + gen_result" where
  "generate_response svc env prompt cfg =
     (if demo_mode svc then Inr (generate_demo_response svc env prompt cfg)
      else case call_provider svc env cfg of
             Inr result \<Rightarrow>
               Inr \<lparr>response = reply_text result,
                    metrics = calculate_metrics (reply_text result) (elapsed_ms env) cfg,
                    token_usage = reply_usage result,
                    model_info = None,
                    result_config = Some cfg\<rparr>
           | Inl e \<Rightarrow>
               (case classify e of
                  Quota \<Rightarrow> Inr (generate_demo_response svc env prompt cfg)
                | Auth \<Rightarrow> Inr (generate_demo_response svc env prompt cfg)
                | Other \<Rightarrow> Inl e))"


section \<open>Experiment runs and aggregate metrics\<close>

text \<open>
  One element of \<open>all_responses\<close> in \<open>run_experiment\<close>: a dictionary that has either the
  keys \<open>response\<close>, \<open>metrics\<close> and \<open>token_usage\<close>, or the key \<open>error\<close>. A field is
  \<open>None\<close> when the dictionary has no such key. The metrics dictionary is kept as its list
  of numeric items.
\<close>

record run_entry =
  entry_config :: model_config
  entry_response :: "pystr option"
  entry_metrics :: "(pystr \<times> real) list option"
  entry_token_usage :: "(pystr \<times> real) list option"
  entry_error :: "pystr option"
  run_number :: nat

definition metrics_dict :: "metrics_data \<Rightarrow> (pystr \<times> real) list" where
  "metrics_dict m =
     [(ascii ''response_length'', real (response_length m)),
      (ascii ''token_count'', real_of_int (token_count m)),
      (ascii ''latency_ms'', latency_ms m),
      (ascii ''cost_estimate'', cost_estimate m)]
     @ (case sentiment_score m of None \<Rightarrow> [] | Some v \<Rightarrow> [(ascii ''sentiment_score'', v)])
     @ (case readability_score m of None \<Rightarrow> [] | Some v \<Rightarrow> [(ascii ''readability_score'', v)])
     @ (case coherence_score m of None \<Rightarrow> [] | Some v \<Rightarrow> [(ascii ''coherence_score'', v)])"

text \<open>\<open>d.get(key, 0)\<close> on a dictionary of numbers.\<close>

definition get_or_zero :: "(pystr \<times> real) list \<Rightarrow> pystr \<Rightarrow> real" where
  "get_or_zero d key = (case map_of d key of None \<Rightarrow> 0 | Some v \<Rightarrow> v)"

definition metrics_keys :: "pystr list" where
  "metrics_keys = map ascii [''response_length'', ''token_count'', ''latency_ms'', ''cost_estimate'']"

text \<open>
  The body of the loop over \<open>metrics_keys\<close> in \<open>calculate_aggregate_metrics\<close>: the values of
  the key in the responses that have metrics and, when there are any, three new items of
  \<open>aggregates\<close>.
\<close>

definition values_of :: "run_entry list \<Rightarrow> pystr \<Rightarrow> real list" where
  "values_of responses key =
     concat (map (\<lambda>r. case entry_metrics r of None \<Rightarrow> [] | Some m \<Rightarrow> [get_or_zero m key])
                 responses)"

definition aggregate_key ::
  "run_entry list \<Rightarrow> pystr \<Rightarrow> (pystr \<rightharpoonup> real) \<Rightarrow> (pystr \<rightharpoonup> real)" where
  "aggregate_key responses key aggregates =
     (let vals = values_of responses key
      in if vals \<noteq> []
         then aggregates
                (ascii ''avg_'' @ key \<mapsto> sum_list vals / real (length vals),
                 ascii ''min_'' @ key \<mapsto> fold min (tl vals) (hd vals),
                 ascii ''max_'' @ key \<mapsto> fold max (tl vals) (hd vals))
         else aggregates)"

definition error_count :: "run_entry list \<Rightarrow> nat" where
  "error_count responses = length (filter (\<lambda>r. entry_error r \<noteq> None) responses)"

definition calculate_aggregate_metrics :: "run_entry list \<Rightarrow> (pystr \<rightharpoonup> real)" where
  "calculate_aggregate_metrics responses =
     (if responses = [] then Map.empty
      else (fold (aggregate_key responses) metrics_keys Map.empty)
             (ascii ''total_responses'' \<mapsto> real (length responses),
              ascii ''success_rate'' \<mapsto>
                real (length responses)
                / real (length responses + error_count responses)))"

text \<open>
  \<open>run_experiment\<close>: one call of \<open>generate_response\<close> for every configuration and run, in
  the order in which the source iterates; \<open>envs i run\<close> is what the call for configuration number \<open>i\<close>
  and run \<open>run\<close> meets. A call that raises leaves an entry with the key \<open>error\<close>. The
  aggregate metrics are computed from the entries without that key.
\<close>

definition entry_of :: "model_config \<Rightarrow> nat \<Rightarrow> pystr + gen_result \<Rightarrow> run_entry" where
  "entry_of cfg run_num outcome =
     (case outcome of
        Inr response_data \<Rightarrow>
          \<lparr>entry_config = cfg,
           entry_response = Some (response response_data),
           entry_metrics = Some (metrics_dict (metrics response_data)),
           entry_token_usage = Some (token_usage response_data),
           entry_error = None,
           run_number = run_num + 1\<rparr>
      | Inl e \<Rightarrow>
          \<lparr>entry_config = cfg,
           entry_response = None,
           entry_metrics = None,
           entry_token_usage = None,
           entry_error = Some e,
           run_number = run_num + 1\<rparr>)"

definition all_responses ::
  "llm_service \<Rightarrow> (nat \<Rightarrow> nat \<Rightarrow> environment) \<Rightarrow> pystr \<Rightarrow> model_config list \<Rightarrow> nat
     \<Rightarrow> run_entry list" where
  "all_responses svc envs prompt model_configs num_runs =
     concat (map (\<lambda>(i, cfg).
                    map (\<lambda>run_num. entry_of cfg run_num
                                      (generate_response svc (envs i run_num) prompt cfg))
                        [0..<num_runs])
                 (enumerate 0 model_configs))"

definition successful_responses :: "run_entry list \<Rightarrow> run_entry list" where
  "successful_responses entries = filter (\<lambda>r. entry_error r = None) entries"

definition run_experiment ::
  "llm_service \<Rightarrow> (nat \<Rightarrow> nat \<Rightarrow> environment) \<Rightarrow> pystr \<Rightarrow> model_config list \<Rightarrow> nat
     \<Rightarrow> run_entry list \<times> (pystr \<rightharpoonup> real)" where
  "run_experiment svc envs prompt model_configs num_runs =
     (let entries = all_responses svc envs prompt model_configs num_runs
      in (entries, calculate_aggregate_metrics (successful_responses entries)))"

section \<open>Example inputs\<close>

definition gpt4_config :: model_config where
  "gpt4_config = \<lparr>provider = OPENAI, model_name = ascii ''gpt-4'', temperature = 0.7,
     max_tokens = Some 1000, top_p = Some 1, frequency_penalty = Some 0,
     presence_penalty = Some 0\<rparr>"

definition fallback_service :: llm_service where
  "fallback_service = \<lparr>demo_mode = False, openai_client = True, anthropic_client = True\<rparr>"


definition failing_env :: "pystr \<Rightarrow> environment" where
  "failing_env message = \<lparr>api = Inl message, elapsed_ms = 1200, choice = 0,
     cost_draw = 0.0005, sentiment_draw = 0.5, readability_draw = 0.7\<rparr>"

definition replying_env :: "pystr \<Rightarrow> environment" where
  "replying_env reply = \<lparr>api = Inr \<lparr>reply_text = reply, reply_usage = []\<rparr>, elapsed_ms = 800,
     choice = 0, cost_draw = 0.0005, sentiment_draw = 0.5, readability_draw = 0.7\<rparr>"

definition quota_message :: pystr where
  "quota_message = ascii ''Error code: 429 - insufficient_quota''"

definition fallback_result :: gen_result where
  "fallback_result =
     generate_demo_response fallback_service (failing_env quota_message) (ascii ''Hello'')
       gpt4_config"

definition two_ok_one_failed :: "nat \<Rightarrow> nat \<Rightarrow> environment" where
  "two_ok_one_failed i run_num =
     (if run_num < 2 then replying_env (ascii ''Paris.'')
      else failing_env (ascii ''service unavailable''))"

section \<open>Properties of the sentiment score\<close>

lemmas text_defs = str_split_def lower_def lower_cp_def ascii_def isspace_def

lemma ratio_bounds:
  fixes p n :: nat
  assumes "p + n \<noteq> 0"
  shows "- 1 \<le> (real p - real n) / real (p + n) \<and> (real p - real n) / real (p + n) \<le> 1"
proof -
  have pos: "0 < real p + real n" using assms by (cases "p = 0") simp_all
  have "- (real p + real n) \<le> real p - real n" "real p - real n \<le> real p + real n" by simp_all
  then show ?thesis using pos by (simp add: pos_le_divide_eq pos_divide_le_eq)
qed

lemma sentiment_bounds:
  "- 1 \<le> calculate_sentiment text \<and> calculate_sentiment text \<le> 1"
  using ratio_bounds [of "positive_count text" "negative_count text"]
  by (simp add: calculate_sentiment_def)

lemma no_lexicon_word_counts:
  assumes "\<forall>w \<in> set (str_split (lower text)). w \<notin> set positive_words \<and> w \<notin> set negative_words"
  shows "positive_count text = 0 \<and> negative_count text = 0"
  using assms by (simp add: positive_count_def negative_count_def)

text \<open>
  Claim C7. For every response text the sentiment score is \<open>(pos - neg) / (pos + neg)\<close>,
  where \<open>pos\<close> and \<open>neg\<close> count the lower-cased whitespace tokens that belong to the
  positive and to the negative word list, each of six words; it is 0 when \<open>pos + neg = 0\<close>,
  in particular when no token belongs to either list, and it always lies between -1 and 1.
\<close>

theorem calculate_sentiment_formula:
  "length positive_words = 6 \<and> length negative_words = 6
   \<and> calculate_sentiment text =
       (if positive_count text + negative_count text = 0 then 0
        else (real (positive_count text) - real (negative_count text))
             / real (positive_count text + negative_count text))
   \<and> ((\<forall>w \<in> set (str_split (lower text)). w \<notin> set positive_words \<and> w \<notin> set negative_words)
        \<longrightarrow> calculate_sentiment text = 0)
   \<and> - 1 \<le> calculate_sentiment text \<and> calculate_sentiment text \<le> 1"
proof -
  have "length positive_words = 6" "length negative_words = 6"
    by (simp_all add: positive_words_def negative_words_def)
  moreover have "(\<forall>w \<in> set (str_split (lower text)). w \<notin> set positive_words \<and> w \<notin> set negative_words)
        \<longrightarrow> calculate_sentiment text = 0"
    using no_lexicon_word_counts [of "text"] by (simp add: calculate_sentiment_def)
  moreover have "calculate_sentiment text =
       (if positive_count text + negative_count text = 0 then 0
        else (real (positive_count text) - real (negative_count text))
             / real (positive_count text + negative_count text))"
    by (simp only: calculate_sentiment_def)
  ultimately show ?thesis using sentiment_bounds [of "text"] by blast
qed

theorem calculate_sentiment_formula_witness:
  "list_all (\<lambda>w. w \<notin> set positive_words \<and> w \<notin> set negative_words)
      (str_split (lower (ascii ''It works'')))
   \<and> calculate_sentiment (ascii ''It works'') = 0
   \<and> calculate_sentiment (ascii ''Good bad GREAT'') = 1 / 3"
proof -
  have h: "\<forall>w \<in> set (str_split (lower (ascii ''It works''))). w \<notin> set positive_words \<and> w \<notin> set negative_words"
    by (simp add: text_defs positive_words_def negative_words_def)
  have "positive_count (ascii ''Good bad GREAT'') = 2" "negative_count (ascii ''Good bad GREAT'') = 1"
    by (simp_all add: positive_count_def negative_count_def text_defs positive_words_def negative_words_def)
  then show ?thesis
    using h calculate_sentiment_formula [of "ascii ''It works''"]
      calculate_sentiment_formula [of "ascii ''Good bad GREAT''"]
    by (simp add: list_all_iff)
qed

text \<open>
  Claim C10. The word lists are matched against whole whitespace-delimited tokens: the
  text \<open>good.\<close> is the single token \<open>good.\<close>, which is not in the positive list, so its
  sentiment score is 0, while the text \<open>good\<close> scores 1.
\<close>

theorem sentiment_whole_tokens_only:
  "str_split (lower (ascii ''good.'')) = [ascii ''good.'']
   \<and> ascii ''good.'' \<notin> set positive_words
   \<and> calculate_sentiment (ascii ''good.'') = 0
   \<and> calculate_sentiment (ascii ''good'') = 1"
  by (simp add: calculate_sentiment_def positive_count_def negative_count_def text_defs
      positive_words_def negative_words_def)

section \<open>Properties of the cost estimate\<close>

lemma rate_of_positive: "0 < rate_of name"
  by (simp add: rate_of_def cost_per_1k_tokens_def)

lemma rate_of_unrecognized:
  "name \<notin> set (map fst cost_per_1k_tokens) \<Longrightarrow> rate_of name = 0.001"
  by (simp add: rate_of_def cost_per_1k_tokens_def)

lemma estimate_cost_mono:
  "t1 \<le> t2 \<Longrightarrow> estimate_cost t1 cfg \<le> estimate_cost t2 cfg"
  using rate_of_positive [of "model_name cfg"]
  by (simp add: estimate_cost_def mult_right_mono divide_right_mono)

text \<open>
  Claim C9. The cost estimate is \<open>(token_count / 1000) * rate\<close>, the rate being the one of
  the table for the four model names it lists and 0.001 for every other model name; for a
  fixed configuration the estimate does not decrease when the token count grows.
\<close>

theorem estimate_cost_rate_and_monotone:
  "estimate_cost t cfg = (real_of_int t / 1000) * rate_of (model_name cfg)
   \<and> map rate_of (map fst cost_per_1k_tokens) = map snd cost_per_1k_tokens
   \<and> (name \<notin> set (map fst cost_per_1k_tokens) \<longrightarrow> rate_of name = 0.001)
   \<and> (t1 \<le> t2 \<longrightarrow> estimate_cost t1 cfg \<le> estimate_cost t2 cfg)"
proof -
  have "map rate_of (map fst cost_per_1k_tokens) = map snd cost_per_1k_tokens"
    by (simp add: rate_of_def cost_per_1k_tokens_def ascii_def)
  then show ?thesis
    using rate_of_unrecognized [of name] estimate_cost_mono [of t1 t2 cfg]
    by (simp add: estimate_cost_def)
qed

theorem estimate_cost_rate_and_monotone_witness:
  "ascii ''my-model'' \<notin> set (map fst cost_per_1k_tokens)
   \<and> rate_of (ascii ''my-model'') = 0.001
   \<and> (10::int) \<le> 2000
   \<and> estimate_cost 10 gpt4_config \<le> estimate_cost 2000 gpt4_config
   \<and> estimate_cost 2000 gpt4_config = 0.06"
proof -
  have h: "ascii ''my-model'' \<notin> set (map fst cost_per_1k_tokens)"
    by (simp add: cost_per_1k_tokens_def ascii_def)
  have r: "rate_of (model_name gpt4_config) = 0.03"
    by (simp add: rate_of_def cost_per_1k_tokens_def gpt4_config_def)
  show ?thesis
    using h r estimate_cost_rate_and_monotone [of 2000 gpt4_config "ascii ''my-model''" 10 2000]
    by simp
qed

section \<open>Properties of the readability score\<close>

lemma re_split_acc_nonempty: "re_split_acc cur run s \<noteq> []"
  by (induction s arbitrary: cur run) simp_all

lemma re_split_at_least_one: "1 \<le> length (re_split s)"
  using re_split_acc_nonempty [of "[]" False s]
  by (cases "re_split s") (simp_all add: re_split_def)

lemma count_syllables_at_least_one: "1 \<le> count_syllables word"
  by (simp add: count_syllables_def Let_def)





section \<open>Properties of the coherence score\<close>

lemma split_on_acc_length:
  "length (split_on_acc d cur s) = Suc (length (filter (\<lambda>c. c = d) s))"
  by (induction s arbitrary: cur) simp_all

lemma split_on_short: "length (split_on d s) < 2 \<longleftrightarrow> d \<notin> set s"
  by (auto simp add: split_on_def split_on_acc_length filter_empty_conv)

lemma variance_nonneg: "0 \<le> variance_of ls"
proof -
  have "0 \<le> sum_list (map (\<lambda>l. (real l - a)\<^sup>2) ls)" for a
    by (rule sum_list_nonneg) auto
  then show ?thesis by (simp add: variance_of_def Let_def)
qed

lemma variance_single: "variance_of [l] = 0"
  by (simp add: variance_of_def)

lemma coherence_bounds:
  assumes "0 \<le> (v::real)"
  shows "0 < 1 / (1 + v / max a 1) \<and> 1 / (1 + v / max a 1) \<le> 1"
proof -
  have "0 \<le> v / max a 1" using assms by simp
  then show ?thesis by simp
qed

text \<open>
  Claim C5 says that the coherence score is always positive and is 1 for a text with at
  most one period. The text that is a single period has one period and no segment that is
  not empty, and its score is 0.
\<close>

theorem coherence_one_period_counterexample:
  "length (filter (\<lambda>c. c = 46) (ascii ''.'')) = 1
   \<and> filter (\<lambda>sentence. sentence \<noteq> []) (split_on 46 (ascii ''.'')) = []
   \<and> calculate_coherence (ascii ''.'') = 0
   \<and> \<not> 0 < calculate_coherence (ascii ''.'')
   \<and> calculate_coherence (ascii ''.'') \<noteq> 1"
  by (simp add: calculate_coherence_def segment_lengths_def split_on_def strip_def ascii_def)

text \<open>
  Claim C5, amended. For every text the coherence score lies between 0 and 1. It is 1 when
  the text has no period, and when exactly one of the segments between periods is not
  blank; it is 0 when the text has a period and every segment is blank; it is positive
  whenever some segment is not blank.
\<close>

theorem calculate_coherence_range:
  "0 \<le> calculate_coherence s \<and> calculate_coherence s \<le> 1
   \<and> (46 \<notin> set s \<longrightarrow> calculate_coherence s = 1)
   \<and> (46 \<in> set s \<and> segment_lengths s = [] \<longrightarrow> calculate_coherence s = 0)
   \<and> (length (segment_lengths s) = 1 \<longrightarrow> calculate_coherence s = 1)
   \<and> (segment_lengths s \<noteq> [] \<longrightarrow> 0 < calculate_coherence s)"
proof -
  have none: "calculate_coherence s = 1" if "46 \<notin> set s"
    using that split_on_short [of 46 s] by (simp add: calculate_coherence_def)
  have blank: "calculate_coherence s = 0" if "46 \<in> set s" "segment_lengths s = []"
    using that split_on_short [of 46 s] by (simp add: calculate_coherence_def)
  have some: "0 < calculate_coherence s \<and> calculate_coherence s \<le> 1"
    if "segment_lengths s \<noteq> []"
    using that coherence_bounds [OF variance_nonneg [of "segment_lengths s"]]
    by (simp add: calculate_coherence_def Let_def)
  have one: "calculate_coherence s = 1" if len: "length (segment_lengths s) = 1"
  proof -
    obtain l where l: "segment_lengths s = [l]"
      using len by (cases "segment_lengths s") auto
    show ?thesis by (simp add: calculate_coherence_def Let_def l variance_single)
  qed
  have range: "0 \<le> calculate_coherence s \<and> calculate_coherence s \<le> 1"
  proof (cases "segment_lengths s = []")
    case True
    then show ?thesis by (simp add: calculate_coherence_def)
  next
    case False
    then show ?thesis using some by simp
  qed
  show ?thesis using none blank some one range by blast
qed

theorem calculate_coherence_range_witness:
  "46 \<notin> set (ascii ''Hello world'') \<and> calculate_coherence (ascii ''Hello world'') = 1
   \<and> 46 \<in> set (ascii '' . '') \<and> segment_lengths (ascii '' . '') = []
   \<and> calculate_coherence (ascii '' . '') = 0
   \<and> length (segment_lengths (ascii ''Hello world.'')) = 1
   \<and> calculate_coherence (ascii ''Hello world.'') = 1
   \<and> segment_lengths (ascii ''a b c. d'') \<noteq> []
   \<and> 0 < calculate_coherence (ascii ''a b c. d'')
   \<and> calculate_coherence (ascii ''a b c. d'') = 2 / 3"
proof -
  have a: "46 \<notin> set (ascii ''Hello world'')" by (simp add: ascii_def)
  have b: "46 \<in> set (ascii '' . '')" "segment_lengths (ascii '' . '') = []"
    by (simp_all add: segment_lengths_def split_on_def strip_def isspace_def ascii_def)
  have c: "length (segment_lengths (ascii ''Hello world.'')) = 1"
    by (simp add: segment_lengths_def split_on_def strip_def text_defs)
  have d: "segment_lengths (ascii ''a b c. d'') = [3, 1]"
    by (simp add: segment_lengths_def split_on_def strip_def text_defs)
  have f: "\<not> length (split_on 46 (ascii ''a b c. d'')) < 2"
    by (simp add: split_on_def ascii_def)
  have e: "calculate_coherence (ascii ''a b c. d'') = 2 / 3"
    by (simp add: calculate_coherence_def variance_of_def d f power2_eq_square)
  show ?thesis
    using a b c d e calculate_coherence_range [of "ascii ''Hello world''"]
      calculate_coherence_range [of "ascii '' . ''"]
      calculate_coherence_range [of "ascii ''Hello world.''"]
      calculate_coherence_range [of "ascii ''a b c. d''"]
    by simp
qed

section \<open>Properties of the error classification\<close>




lemmas classify_defs = classify_def quota_keywords_def auth_keywords_def lower_def lower_cp_def
  ascii_def



section \<open>Properties of the dispatch\<close>









section \<open>Properties of the fallback metrics\<close>

lemma fallback_result_text:
  "response fallback_result
     = fallback_banner @ hd (demo_responses OPENAI) @ fallback_note"
  by (simp add: fallback_result_def generate_demo_response_def demo_text_def Let_def
      fallback_service_def failing_env_def gpt4_config_def demo_responses_def
      lower_def lower_cp_def ascii_def)

lemma fallback_result_no_lexicon_word:
  "positive_count (response fallback_result) = 0 \<and> negative_count (response fallback_result) = 0"
  by (simp add: fallback_result_text positive_count_def negative_count_def
      fallback_banner_def fallback_note_def demo_responses_def
      positive_words_def negative_words_def text_defs)

text \<open>
  Claim C6 says that the fallback computes its metrics as the success path does, up to
  the token count and the cost. For the fallback response to a quota error the coherence
  score is absent, where the metrics computation gives one, and the sentiment score is the
  random draw 0.5, where the computation on the same text gives 0.
\<close>

theorem fallback_metrics_counterexample:
  "coherence_score (metrics fallback_result) = None
   \<and> coherence_score (calculate_metrics (response fallback_result) (elapsed_ms (failing_env quota_message)) gpt4_config)
       = Some (calculate_coherence (response fallback_result))
   \<and> sentiment_score (metrics fallback_result) = Some 0.5
   \<and> sentiment_score (calculate_metrics (response fallback_result) (elapsed_ms (failing_env quota_message)) gpt4_config)
       = Some 0
   \<and> metrics fallback_result \<noteq> calculate_metrics (response fallback_result) (elapsed_ms (failing_env quota_message)) gpt4_config"
proof -
  have a: "coherence_score (metrics fallback_result) = None"
    "sentiment_score (metrics fallback_result) = Some 0.5"
    by (simp_all add: fallback_result_def generate_demo_response_def Let_def failing_env_def)
  have b: "coherence_score (calculate_metrics t l c) = Some (calculate_coherence t)" for t l c
    by (simp add: calculate_metrics_def)
  have c: "sentiment_score (calculate_metrics (response fallback_result) l c) = Some 0" for l c
    using fallback_result_no_lexicon_word
    by (simp add: calculate_metrics_def calculate_sentiment_def)
  have "metrics fallback_result \<noteq> calculate_metrics (response fallback_result) l c" for l c
    using a(1) b [of "response fallback_result" l c] by auto
  then show ?thesis using a b c by simp
qed

text \<open>
  Claim C6, amended. The fallback builds its metrics without the metrics computation of
  the success path: the response length and the latency are those the computation would
  give for the fallback text, the token count is the whitespace word count times 1.3 rounded
  down, the cost, the sentiment score and the readability score are random draws, and there
  is no coherence score.
\<close>

theorem generate_demo_response_metrics:
  "metrics (generate_demo_response svc env prompt cfg) =
     \<lparr>response_length = length (response (generate_demo_response svc env prompt cfg)),
      token_count =
        \<lfloor>real (length (str_split (response (generate_demo_response svc env prompt cfg)))) * 1.3\<rfloor>,
      latency_ms = elapsed_ms env,
      cost_estimate = cost_draw env,
      sentiment_score = Some (sentiment_draw env),
      readability_score = Some (readability_draw env),
      coherence_score = None\<rparr>
   \<and> response_length (metrics (generate_demo_response svc env prompt cfg))
       = response_length (calculate_metrics (response (generate_demo_response svc env prompt cfg))
                            (elapsed_ms env) cfg)
   \<and> latency_ms (metrics (generate_demo_response svc env prompt cfg))
       = latency_ms (calculate_metrics (response (generate_demo_response svc env prompt cfg))
                            (elapsed_ms env) cfg)"
  by (simp add: generate_demo_response_def calculate_metrics_def Let_def)

theorem generate_demo_response_metrics_witness:
  "length (response fallback_result) = 356
   \<and> length (str_split (response fallback_result)) = 56
   \<and> metrics fallback_result =
     \<lparr>response_length = 356, token_count = 72, latency_ms = 1200, cost_estimate = 0.0005,
      sentiment_score = Some 0.5, readability_score = Some 0.7, coherence_score = None\<rparr>"
proof -
  have a: "length (response fallback_result) = 356"
    by (simp add: fallback_result_text fallback_banner_def fallback_note_def demo_responses_def
        ascii_def)
  have b: "length (str_split (response fallback_result)) = 56"
    by (simp add: fallback_result_text fallback_banner_def fallback_note_def demo_responses_def
        text_defs)
  have c: "\<lfloor>real 56 * 1.3\<rfloor> = (72::int)" by (simp add: floor_eq_iff)
  note t = generate_demo_response_metrics [of fallback_service "failing_env quota_message"
      "ascii ''Hello''" gpt4_config, folded fallback_result_def]
  show ?thesis
    using a b c t by (simp add: failing_env_def)
qed

section \<open>Properties of the aggregate metrics\<close>

lemma error_count_successful: "error_count (successful_responses entries) = 0"
  by (auto simp add: error_count_def successful_responses_def filter_empty_conv)

lemma error_count_none:
  "\<forall>r \<in> set responses. entry_error r = None \<Longrightarrow> error_count responses = 0"
  by (simp add: error_count_def)

lemma success_rate_lookup:
  "responses \<noteq> [] \<Longrightarrow>
   calculate_aggregate_metrics responses (ascii ''success_rate'')
     = Some (real (length responses) / real (length responses + error_count responses))"
  by (simp add: calculate_aggregate_metrics_def)

text \<open>
  Claim C2. For every non-empty list of responses without the key \<open>error\<close> the number of
  failures counted in the denominator is 0 and the success rate is exactly 1; so it is for
  the list that \<open>run_experiment\<close> passes, which is filtered to such entries.
\<close>

theorem success_rate_always_one:
  "(responses \<noteq> [] \<and> (\<forall>r \<in> set responses. entry_error r = None) \<longrightarrow>
      error_count responses = 0
      \<and> calculate_aggregate_metrics responses (ascii ''success_rate'') = Some 1)
   \<and> (successful_responses (fst (run_experiment svc envs prompt model_configs num_runs)) \<noteq> [] \<longrightarrow>
      snd (run_experiment svc envs prompt model_configs num_runs) (ascii ''success_rate'') = Some 1)"
proof -
  have a: "calculate_aggregate_metrics rs (ascii ''success_rate'') = Some 1"
    if "rs \<noteq> []" "error_count rs = 0" for rs
    using that success_rate_lookup [of rs] by simp
  have b: "snd (run_experiment svc envs prompt model_configs num_runs) (ascii ''success_rate'') = Some 1"
    if "successful_responses (fst (run_experiment svc envs prompt model_configs num_runs)) \<noteq> []"
    using that a [OF _ error_count_successful]
    by (simp add: run_experiment_def Let_def)
  show ?thesis using a b error_count_none [of responses] by blast
qed

lemma two_ok_one_failed_entries:
  "map entry_error (fst (run_experiment fallback_service two_ok_one_failed (ascii ''Capital of France'')
                          [gpt4_config] 3))
     = [None, None, Some (ascii ''service unavailable'')]"
  by (simp add: run_experiment_def all_responses_def entry_of_def generate_response_def
      call_provider_def generate_openai_response_def classify_defs
      fallback_service_def gpt4_config_def two_ok_one_failed_def replying_env_def failing_env_def
      Let_def upt_conv_Cons)

theorem success_rate_always_one_witness:
  "successful_responses (fst (run_experiment fallback_service two_ok_one_failed
      (ascii ''Capital of France'') [gpt4_config] 3)) \<noteq> []
   \<and> list_all (\<lambda>r. entry_error r = None)
       (successful_responses (fst (run_experiment fallback_service two_ok_one_failed
          (ascii ''Capital of France'') [gpt4_config] 3)))
   \<and> calculate_aggregate_metrics
       (successful_responses (fst (run_experiment fallback_service two_ok_one_failed
          (ascii ''Capital of France'') [gpt4_config] 3))) (ascii ''success_rate'') = Some 1
   \<and> snd (run_experiment fallback_service two_ok_one_failed (ascii ''Capital of France'')
            [gpt4_config] 3) (ascii ''success_rate'') = Some 1"
proof -
  let ?es = "fst (run_experiment fallback_service two_ok_one_failed (ascii ''Capital of France'')
      [gpt4_config] 3)"
  have ne: "successful_responses ?es \<noteq> []"
    using two_ok_one_failed_entries
    by (auto simp add: successful_responses_def map_eq_Cons_conv)
  have ok: "list_all (\<lambda>r. entry_error r = None) (successful_responses ?es)"
    by (simp add: successful_responses_def list_all_iff)
  show ?thesis
    using ne ok
      success_rate_always_one [of "successful_responses ?es" fallback_service two_ok_one_failed
        "ascii ''Capital of France''" "[gpt4_config]" 3]
    by (simp add: list_all_iff)
qed

text \<open>
  Claim C1. With two successful runs and one run that fails with the message
  \<open>service unavailable\<close>, \<open>run_experiment\<close> records two entries without and one with the key
  \<open>error\<close>, and reports a success rate of 1 and two responses: the failed entry is
  filtered out before \<open>calculate_aggregate_metrics\<close> counts the entries with an error. On
  the unfiltered entries the function gives 3/4.
\<close>

theorem run_experiment_hides_failures:
  "map entry_error (fst (run_experiment fallback_service two_ok_one_failed
      (ascii ''Capital of France'') [gpt4_config] 3))
     = [None, None, Some (ascii ''service unavailable'')]
   \<and> snd (run_experiment fallback_service two_ok_one_failed (ascii ''Capital of France'')
            [gpt4_config] 3) (ascii ''success_rate'') = Some 1
   \<and> snd (run_experiment fallback_service two_ok_one_failed (ascii ''Capital of France'')
            [gpt4_config] 3) (ascii ''total_responses'') = Some 2
   \<and> calculate_aggregate_metrics
        (fst (run_experiment fallback_service two_ok_one_failed (ascii ''Capital of France'')
               [gpt4_config] 3)) (ascii ''success_rate'') = Some (3 / 4)"
proof -
  let ?es = "fst (run_experiment fallback_service two_ok_one_failed (ascii ''Capital of France'')
      [gpt4_config] 3)"
  obtain a b c where es: "?es = [a, b, c]" "entry_error a = None" "entry_error b = None"
    "entry_error c = Some (ascii ''service unavailable'')"
    using two_ok_one_failed_entries by (auto simp add: map_eq_Cons_conv)
  have full: "calculate_aggregate_metrics ?es (ascii ''success_rate'') = Some (3 / 4)"
    by (simp add: success_rate_lookup es error_count_def)
  have succ: "successful_responses ?es = [a, b]"
    by (simp add: successful_responses_def es)
  have snd_eq: "snd (run_experiment fallback_service two_ok_one_failed (ascii ''Capital of France'')
            [gpt4_config] 3) = calculate_aggregate_metrics (successful_responses ?es)"
    by (simp add: run_experiment_def Let_def)
  have rate: "calculate_aggregate_metrics [a, b] (ascii ''success_rate'') = Some 1"
    by (simp add: success_rate_lookup es error_count_def)
  have total: "calculate_aggregate_metrics [a, b] (ascii ''total_responses'') = Some 2"
    by (simp add: calculate_aggregate_metrics_def ascii_def)
  show ?thesis
    using two_ok_one_failed_entries full rate total by (simp only: snd_eq succ simp_thms)
qed

end
